theory Spec2Isabelle
  imports Complex_Main
begin

section \<open>JavaScript values\<close>

text \<open>
  A JavaScript string is a sequence of code units and is modelled as \<open>string\<close>.
  A JavaScript number is modelled as a \<open>real\<close>: every finite double is a real, and the
  comparisons of the source against the literals 0, 1, 2, 400, 500, 1000, 4000 and 120000
  agree with the comparisons of the reals. \<open>NaN\<close> is left out: no JSON body contains it.
  The literals 0.3 and 0.7 are written \<open>3 / 10\<close> and \<open>7 / 10\<close>; nothing below uses more
  of them than that they are not 0. An optional property (\<open>undefined\<close> when absent) is an
  \<open>option\<close>.
\<close>

definition startsWith :: "string \<Rightarrow> string \<Rightarrow> bool" where
  "startsWith s p = (take (length p) s = p)"

definition substring :: "string \<Rightarrow> nat \<Rightarrow> nat \<Rightarrow> string" where
  "substring s a b = take (max a b - min a b) (drop (min a b) s)"

definition isWhiteSpace :: "char \<Rightarrow> bool" where
  "isWhiteSpace c = (c \<in> set [CHR 0x09, CHR 0x0A, CHR 0x0B, CHR 0x0C, CHR 0x0D, CHR 0x20, CHR 0xA0])"

definition trim :: "string \<Rightarrow> string" where
  "trim s = rev (dropWhile isWhiteSpace (rev (dropWhile isWhiteSpace s)))"

text \<open>\<open>str_includes s sub\<close> is \<open>s.includes(sub)\<close>: \<open>sub\<close> occurs in \<open>s\<close> as a contiguous run.\<close>

fun str_includes :: "string \<Rightarrow> string \<Rightarrow> bool" where
  "str_includes [] sub = (sub = [])"
| "str_includes (c # cs) sub = (startsWith (c # cs) sub \<or> str_includes cs sub)"

text \<open>Decimal rendering of a non-negative integer, as a template literal prints it.\<close>

fun string_of_nat :: "nat \<Rightarrow> string" where
  "string_of_nat n =
     (if n < 10 then [''0123456789'' ! n]
      else string_of_nat (n div 10) @ [''0123456789'' ! (n mod 10)])"

declare string_of_nat.simps [simp del]

text \<open>
  The operator \<open>||\<close> on strings and numbers: the left operand when it is truthy, the right
  one otherwise. The empty string, the number 0 and \<open>undefined\<close> are falsy.
\<close>

definition str_or :: "string \<Rightarrow> string \<Rightarrow> string" where
  "str_or a b = (if a \<noteq> [] then a else b)"

definition opt_str_or :: "string option \<Rightarrow> string \<Rightarrow> string" where
  "opt_str_or a b = (case a of Some s \<Rightarrow> str_or s b | None \<Rightarrow> b)"

definition opt_or :: "string option \<Rightarrow> string option \<Rightarrow> string option" where
  "opt_or a b = (case a of Some s \<Rightarrow> if s \<noteq> [] then Some s else b | None \<Rightarrow> b)"

definition num_or :: "real \<Rightarrow> real \<Rightarrow> real" where
  "num_or a b = (if a \<noteq> 0 then a else b)"

definition opt_num_or :: "real option \<Rightarrow> real \<Rightarrow> real" where
  "opt_num_or a b = (case a of Some x \<Rightarrow> num_or x b | None \<Rightarrow> b)"


section \<open>HTTP exchange and thrown values\<close>

text \<open>
  The body of an upstream response is a JSON object. Of it the source reads \<open>choices\<close>,
  the \<open>text\<close> and \<open>message.content\<close> of a choice, \<open>error.message\<close>, and
  \<open>usage.total_tokens\<close> for a log line only (left out, as all logging is).
\<close>

record Choice =
  choice_text :: "string option"
  message_content :: "string option"

record LLMResponse =
  choices :: "Choice list option"
  error_message :: "string option"

record http_response =
  status :: nat
  statusText :: string
  data :: LLMResponse

text \<open>
  \<open>Error m\<close> is \<open>new Error(m)\<close>. \<open>AxiosError m r q\<close> is the value with which
  \<open>axios.post\<close> rejects: its message, its \<open>response\<close> property (present when the server
  answered) and whether its \<open>request\<close> property is set (the request was sent).
\<close>

datatype thrown =
  Error string
| AxiosError string "http_response option" bool

fun message_of :: "thrown \<Rightarrow> string" where
  "message_of (Error m) = m"
| "message_of (AxiosError m r q) = m"

fun response_of :: "thrown \<Rightarrow> http_response option" where
  "response_of (Error m) = None"
| "response_of (AxiosError m r q) = r"

fun request_of :: "thrown \<Rightarrow> bool" where
  "request_of (Error m) = False"
| "request_of (AxiosError m r q) = q"


section \<open>ConfigService (backend/src/services/configService.ts)\<close>

record LLMConfig =
  apiUrl :: string
  apiToken :: string
  defaultModel :: string
  maxTokens :: real
  temperature :: real
  requestTimeout :: real
  enableLogging :: bool

text \<open>\<open>Partial<LLMConfig>\<close>: every property may be absent.\<close>

record PartialLLMConfig =
  apiUrl_opt :: "string option"
  apiToken_opt :: "string option"
  defaultModel_opt :: "string option"
  maxTokens_opt :: "real option"
  temperature_opt :: "real option"
  requestTimeout_opt :: "real option"
  enableLogging_opt :: "bool option"

definition empty_partial :: PartialLLMConfig where
  "empty_partial =
     \<lparr>apiUrl_opt = None, apiToken_opt = None, defaultModel_opt = None, maxTokens_opt = None,
      temperature_opt = None, requestTimeout_opt = None, enableLogging_opt = None\<rparr>"

text \<open>
  The configuration file holds the serialised \<open>config\<close> object or does not exist;
  \<open>writable\<close> says whether \<open>fs.writeFileSync\<close> succeeds. A failed write leaves the file
  as it was.
\<close>

record FileSystem =
  config_file :: "PartialLLMConfig option"
  writable :: bool

record ConfigService =
  config :: PartialLLMConfig
  fs :: FileSystem

definition or_default :: "'a option \<Rightarrow> 'a \<Rightarrow> 'a" where
  "or_default v d = (case v of Some x \<Rightarrow> x | None \<Rightarrow> d)"

definition or_previous :: "'a option \<Rightarrow> 'a option \<Rightarrow> 'a option" where
  "or_previous new old = (case new of Some x \<Rightarrow> Some x | None \<Rightarrow> old)"

text \<open>\<open>{ ...a, ...b }\<close> on two partial configurations: a property of \<open>b\<close> wins.\<close>

definition spread :: "PartialLLMConfig \<Rightarrow> PartialLLMConfig \<Rightarrow> PartialLLMConfig" where
  "spread a b =
     \<lparr>apiUrl_opt = or_previous (apiUrl_opt b) (apiUrl_opt a),
      apiToken_opt = or_previous (apiToken_opt b) (apiToken_opt a),
      defaultModel_opt = or_previous (defaultModel_opt b) (defaultModel_opt a),
      maxTokens_opt = or_previous (maxTokens_opt b) (maxTokens_opt a),
      temperature_opt = or_previous (temperature_opt b) (temperature_opt a),
      requestTimeout_opt = or_previous (requestTimeout_opt b) (requestTimeout_opt a),
      enableLogging_opt = or_previous (enableLogging_opt b) (enableLogging_opt a)\<rparr>"

definition saveConfig :: "ConfigService \<Rightarrow> (thrown + unit) \<times> ConfigService" where
  "saveConfig s =
     (if writable (fs s)
      then (Inr (), s\<lparr>fs := (fs s)\<lparr>config_file := Some (config s)\<rparr>\<rparr>)
      else (Inl (Error ''Failed to save configuration''), s))"

definition getConfig :: "ConfigService \<Rightarrow> LLMConfig" where
  "getConfig s =
     \<lparr>apiUrl = or_default (apiUrl_opt (config s)) '''',
      apiToken = or_default (apiToken_opt (config s)) '''',
      defaultModel = or_default (defaultModel_opt (config s)) ''meta-llama/Meta-Llama-3-8B'',
      maxTokens = or_default (maxTokens_opt (config s)) 150,
      temperature = or_default (temperature_opt (config s)) (3 / 10),
      requestTimeout = or_default (requestTimeout_opt (config s)) 30000,
      enableLogging = or_default (enableLogging_opt (config s)) False\<rparr>"

definition validateConfig :: "PartialLLMConfig \<Rightarrow> thrown + unit" where
  "validateConfig c =
     (if (case apiUrl_opt c of Some u \<Rightarrow> u \<noteq> [] \<and> \<not> startsWith u ''http'' | None \<Rightarrow> False)
      then Inl (Error ''API URL must start with http:// or https://'')
      else if (case maxTokens_opt c of Some n \<Rightarrow> n < 1 \<or> n > 4000 | None \<Rightarrow> False)
      then Inl (Error ''maxTokens must be between 1 and 4000'')
      else if (case temperature_opt c of Some t \<Rightarrow> t < 0 \<or> t > 2 | None \<Rightarrow> False)
      then Inl (Error ''temperature must be between 0 and 2'')
      else if (case requestTimeout_opt c of Some t \<Rightarrow> t < 1000 \<or> t > 120000 | None \<Rightarrow> False)
      then Inl (Error ''requestTimeout must be between 1000ms and 120000ms'')
      else Inr ())"

definition updateConfig :: "PartialLLMConfig \<Rightarrow> ConfigService \<Rightarrow> (thrown + unit) \<times> ConfigService" where
  "updateConfig newConfig s =
     (case validateConfig newConfig of
        Inl e \<Rightarrow> (Inl e, s)
      | Inr u \<Rightarrow> saveConfig (s\<lparr>config := spread (config s) newConfig\<rparr>))"

definition setApiConfig :: "string \<Rightarrow> string \<Rightarrow> ConfigService \<Rightarrow> (thrown + unit) \<times> ConfigService" where
  "setApiConfig url token s =
     (if url = [] \<or> \<not> startsWith url ''http''
      then (Inl (Error ''Invalid API URL. Must start with http:// or https://''), s)
      else if token = [] \<or> length (trim token) = 0
      then (Inl (Error ''API token is required''), s)
      else updateConfig (empty_partial\<lparr>apiUrl_opt := Some (trim url), apiToken_opt := Some (trim token)\<rparr>) s)"

definition getMaskedConfig :: "ConfigService \<Rightarrow> LLMConfig" where
  "getMaskedConfig s =
     (let c = getConfig s in
      c\<lparr>apiToken := (if apiToken c \<noteq> [] then substring (apiToken c) 0 10 @ ''...'' else ''''),
        apiUrl := str_or (apiUrl c) ''[Not configured]''\<rparr>)"

text \<open>A service whose stored object has no property yet and whose file can be written.\<close>

definition fresh_service :: ConfigService where
  "fresh_service = \<lparr>config = empty_partial, fs = \<lparr>config_file = None, writable = True\<rparr>\<rparr>"


section \<open>LLMService (llmService.js, with the types of llmService.ts)\<close>

text \<open>
  \<open>LLMRequest\<close>. A JSON body may lack any property, so each one is an option; the
  property \<open>messages\<close> is never read by the service and is left out.
\<close>

record LLMRequest =
  model :: "string option"
  prompt :: "string option"
  max_tokens :: "real option"
  temperature :: "real option"

text \<open>The object literal \<open>payload\<close> of \<open>sendChatCompletion\<close>.\<close>

record Payload =
  model :: string
  prompt :: "string option"
  max_tokens :: real
  temperature :: real

text \<open>
  One invocation of \<open>axios.post\<close>: the URL, the body, the headers and the timeout option.
  The option \<open>validateStatus\<close> is passed to \<open>axios_post\<close> below.
\<close>

record http_call =
  url :: string
  body :: Payload
  headers :: "(string \<times> string) list"
  timeout :: real

text \<open>
  What the transport does with a call: the server answers, the request is sent and no answer
  arrives (a timeout, a refused connection), or the request cannot be sent at all.
\<close>

datatype transport =
  Responded http_response
| NoResponse string
| NotSent string

text \<open>
  The network is the environment: \<open>respond\<close> decides the outcome of each call, and
  \<open>calls\<close> is the log of the calls made so far (what a test double records).
\<close>

record Network =
  respond :: "http_call \<Rightarrow> transport"
  calls :: "http_call list"

text \<open>
  \<open>axios.post\<close>: the promise resolves with the response when \<open>validateStatus\<close> accepts its
  status, and rejects otherwise with an error that carries the response.
\<close>

definition axios_post ::
  "http_call \<Rightarrow> (nat \<Rightarrow> bool) \<Rightarrow> Network \<Rightarrow> (thrown + http_response) \<times> Network" where
  "axios_post c validateStatus net =
     (let net' = net\<lparr>calls := calls net @ [c]\<rparr> in
      case respond net c of
        Responded r \<Rightarrow>
          if validateStatus (status r) then (Inr r, net')
          else (Inl (AxiosError (''Request failed with status code '' @ string_of_nat (status r))
                       (Some r) True), net')
      | NoResponse m \<Rightarrow> (Inl (AxiosError m None True), net')
      | NotSent m \<Rightarrow> (Inl (AxiosError m None False), net'))"

text \<open>
  The payload: \<open>request.model || config.defaultModel || 'meta-llama/Meta-Llama-3-8B'\<close> and
  likewise for the two numbers. The last operands are 100 and 0.7 in llmService.js and 150 and
  0.3 in llmService.ts; they are reached only when the configured value is falsy too.
\<close>

definition build_payload :: "LLMConfig \<Rightarrow> LLMRequest \<Rightarrow> Payload" where
  "build_payload cfg request =
     \<lparr>Payload.model =
        str_or (opt_str_or (LLMRequest.model request) (defaultModel cfg))
          ''meta-llama/Meta-Llama-3-8B'',
      Payload.prompt = LLMRequest.prompt request,
      Payload.max_tokens =
        num_or (opt_num_or (LLMRequest.max_tokens request) (maxTokens cfg)) 100,
      Payload.temperature =
        num_or (opt_num_or (LLMRequest.temperature request) (LLMConfig.temperature cfg))
          (7 / 10)\<rparr>"

definition build_call :: "LLMConfig \<Rightarrow> LLMRequest \<Rightarrow> http_call" where
  "build_call cfg request =
     \<lparr>url = apiUrl cfg,
      body = build_payload cfg request,
      headers =
        [(''Authorization'', ''Bearer '' @ apiToken cfg),
         (''Content-Type'', ''application/json''),
         (''User-Agent'', ''VS-Code-ChatBot-Extension/1.0.0'')],
      timeout = num_or (requestTimeout cfg) 30000\<rparr>"

text \<open>The body of the \<open>try\<close> block of \<open>sendChatCompletion\<close>.\<close>

definition try_post :: "LLMConfig \<Rightarrow> LLMRequest \<Rightarrow> Network \<Rightarrow> (thrown + LLMResponse) \<times> Network" where
  "try_post cfg request net =
     (case axios_post (build_call cfg request) (\<lambda>status. status < 500) net of
        (Inl e, net') \<Rightarrow> (Inl e, net')
      | (Inr response, net') \<Rightarrow>
          if status response \<ge> 400
          then (Inl (Error (''LLM API returned error: '' @ string_of_nat (status response)
                             @ '' - '' @ statusText response)), net')
          else (Inr (data response), net'))"

text \<open>The \<open>catch\<close> clause of \<open>sendChatCompletion\<close>: the value it throws for a caught one.\<close>

definition catch_rethrow :: "thrown \<Rightarrow> thrown" where
  "catch_rethrow error =
     (case response_of error of
        Some r \<Rightarrow>
          Error (''LLM API Error ('' @ string_of_nat (status r) @ ''): ''
                 @ opt_str_or (error_message (data r)) (statusText r))
      | None \<Rightarrow>
          if request_of error
          then Error ''LLM API is not responding. Please check the API URL and network connection.''
          else Error (''Request failed: '' @ message_of error))"

definition sendChatCompletion ::
  "ConfigService \<Rightarrow> LLMRequest \<Rightarrow> Network \<Rightarrow> (thrown + LLMResponse) \<times> Network" where
  "sendChatCompletion svc request net =
     (let cfg = getConfig svc in
      if apiUrl cfg = [] then (Inl (Error ''LLM API URL not configured''), net)
      else if apiToken cfg = [] then (Inl (Error ''LLM API token not configured''), net)
      else
        case try_post cfg request net of
          (Inl error, net') \<Rightarrow> (Inl (catch_rethrow error), net')
        | (Inr d, net') \<Rightarrow> (Inr d, net'))"

text \<open>\<open>choice.text || choice.message?.content || ''\<close>.\<close>

definition choice_content :: "Choice \<Rightarrow> string" where
  "choice_content choice = opt_str_or (opt_or (choice_text choice) (message_content choice)) ''''"

text \<open>The request object that \<open>sendCompletion\<close> passes on.\<close>

definition completion_request :: "string \<Rightarrow> real option \<Rightarrow> LLMRequest" where
  "completion_request p maxTok =
     \<lparr>LLMRequest.model = Some '''', LLMRequest.prompt = Some p,
      LLMRequest.max_tokens = maxTok, LLMRequest.temperature = None\<rparr>"

definition sendCompletion ::
  "ConfigService \<Rightarrow> string \<Rightarrow> real option \<Rightarrow> Network \<Rightarrow> (thrown + string) \<times> Network" where
  "sendCompletion svc p maxTok net =
     (case sendChatCompletion svc (completion_request p maxTok) net of
        (Inl e, net') \<Rightarrow> (Inl e, net')
      | (Inr response, net') \<Rightarrow>
          (case choices response of
             Some (choice # rest) \<Rightarrow> (Inr (choice_content choice), net')
           | _ \<Rightarrow> (Inl (Error ''No response from LLM''), net')))"

record ConnectionTest =
  success :: bool
  message :: string
  responseTime :: "real option"

definition testPrompt :: string where
  "testPrompt =
     ''Hello, this is a connection test. Please respond with '' @ [CHR 0x27]
     @ ''Connection successful'' @ [CHR 0x27] @ ''.''"

text \<open>
  \<open>testConnection\<close>, with the two readings of \<open>Date.now()\<close> as arguments. The result is a
  sum as for the other operations, so that "does not throw" is a statement about it.
\<close>

definition testConnection ::
  "ConfigService \<Rightarrow> real \<Rightarrow> real \<Rightarrow> Network \<Rightarrow> (thrown + ConnectionTest) \<times> Network" where
  "testConnection svc startTime endTime net =
     (case sendCompletion svc testPrompt (Some 20) net of
        (Inr response, net') \<Rightarrow>
          (Inr \<lparr>success = True,
                message = ''Connection successful! Response: '' @ substring response 0 100 @ ''...'',
                responseTime = Some (endTime - startTime)\<rparr>, net')
      | (Inl error, net') \<Rightarrow>
          (Inr \<lparr>success = False,
                message = ''Connection failed: '' @ message_of error,
                responseTime = None\<rparr>, net'))"

record Validation =
  valid :: bool
  errors :: "string list"

definition prompt_missing :: "string option \<Rightarrow> bool" where
  "prompt_missing p = (case p of None \<Rightarrow> True | Some s \<Rightarrow> s = [] \<or> length (trim s) = 0)"

definition prompt_too_long :: "string option \<Rightarrow> bool" where
  "prompt_too_long p = (case p of None \<Rightarrow> False | Some s \<Rightarrow> s \<noteq> [] \<and> length s > 10000)"

definition max_tokens_rejected :: "real option \<Rightarrow> bool" where
  "max_tokens_rejected m = (case m of None \<Rightarrow> False | Some n \<Rightarrow> n \<noteq> 0 \<and> (n < 1 \<or> n > 4000))"

definition temperature_rejected :: "real option \<Rightarrow> bool" where
  "temperature_rejected t = (case t of None \<Rightarrow> False | Some x \<Rightarrow> x \<noteq> 0 \<and> (x < 0 \<or> x > 2))"

definition validateRequest :: "LLMRequest \<Rightarrow> Validation" where
  "validateRequest request =
     (let errs =
        (if prompt_missing (LLMRequest.prompt request)
         then [''Prompt is required and cannot be empty''] else [])
        @ (if prompt_too_long (LLMRequest.prompt request)
           then [''Prompt is too long (maximum 10,000 characters)''] else [])
        @ (if max_tokens_rejected (LLMRequest.max_tokens request)
           then [''max_tokens must be between 1 and 4000''] else [])
        @ (if temperature_rejected (LLMRequest.temperature request)
           then [''temperature must be between 0 and 2''] else [])
      in \<lparr>valid = (length errs = 0), errors = errs\<rparr>)"


section \<open>Concrete inputs\<close>

text \<open>A service with an endpoint and a token, and nothing else stored.\<close>

definition configured_service :: ConfigService where
  "configured_service =
     fresh_service\<lparr>config := empty_partial\<lparr>apiUrl_opt := Some ''http://llm.local/v1/completions'',
                                                apiToken_opt := Some ''secret-token-12345''\<rparr>\<rparr>"

text \<open>A network on which every call has the same outcome and no call has been made yet.\<close>

definition network_of :: "transport \<Rightarrow> Network" where
  "network_of t = \<lparr>respond = (\<lambda>c. t), calls = []\<rparr>"

text \<open>The response 404 with the body \<open>{error: {message: "model not found"}}\<close>.\<close>

definition model_not_found :: http_response where
  "model_not_found =
     \<lparr>status = 404, statusText = ''Not Found'',
      data = \<lparr>choices = None, error_message = Some ''model not found''\<rparr>\<rparr>"

text \<open>A service with an endpoint and no token.\<close>

definition url_only_service :: ConfigService where
  "url_only_service =
     fresh_service\<lparr>config := empty_partial\<lparr>apiUrl_opt := Some ''http://llm.local/v1/completions''\<rparr>\<rparr>"

text \<open>A service whose configuration file cannot be written.\<close>

definition readonly_service :: ConfigService where
  "readonly_service = fresh_service\<lparr>fs := \<lparr>config_file = None, writable = False\<rparr>\<rparr>"

text \<open>A response 200 whose body is the given one.\<close>

definition ok_response :: "LLMResponse \<Rightarrow> http_response" where
  "ok_response d = \<lparr>status = 200, statusText = ''OK'', data = d\<rparr>"


section \<open>Auxiliary facts\<close>

lemma startsWith_append: "startsWith (sub @ b) sub"
  by (simp add: startsWith_def)

lemma str_includes_self_prefix: "str_includes (sub @ b) sub"
proof (cases "sub @ b")
  case Nil
  then show ?thesis by simp
next
  case (Cons a list)
  have "startsWith (a # list) sub"
    using startsWith_append [of sub b] Cons by simp
  with Cons show ?thesis by simp
qed

lemma str_includes_append: "str_includes (a @ sub @ b) sub"
  by (induction a) (auto simp: str_includes_self_prefix)


section \<open>The configuration store\<close>

subsection \<open>Validation and rejected updates\<close>

text \<open>\<open>validateConfig\<close> throws exactly when one of its four checks fires.\<close>

lemma validateConfig_rejects_iff:
  "(\<exists>e. validateConfig c = Inl e) \<longleftrightarrow>
     (\<exists>u. apiUrl_opt c = Some u \<and> u \<noteq> [] \<and> \<not> startsWith u ''http'')
     \<or> (\<exists>n. maxTokens_opt c = Some n \<and> (n < 1 \<or> n > 4000))
     \<or> (\<exists>t. temperature_opt c = Some t \<and> (t < 0 \<or> t > 2))
     \<or> (\<exists>t. requestTimeout_opt c = Some t \<and> (t < 1000 \<or> t > 120000))"
  by (auto simp: validateConfig_def split: option.splits)

text \<open>An update that \<open>validateConfig\<close> rejects changes nothing: the throw precedes the merge.\<close>

lemma updateConfig_rejected_unchanged:
  "validateConfig newConfig = Inl e \<Longrightarrow> updateConfig newConfig s = (Inl e, s)"
  by (simp add: updateConfig_def)

lemma setApiConfig_ftp_rejected:
  "setApiConfig ''ftp://bad'' ''tok'' s =
     (Inl (Error ''Invalid API URL. Must start with http:// or https://''), s)"
  by (simp add: setApiConfig_def startsWith_def)

text \<open>
  Claim C3. The claim: a partial configuration with a field out of bounds, among them a
  non-empty \<open>apiUrl\<close> that starts with neither \<open>http://\<close> nor \<open>https://\<close>, makes
  \<open>updateConfig\<close> fail and leaves \<open>getConfig\<close> as it was. The check of the source is
  \<open>startsWith('http')\<close>, although the message it throws reads "must start with http:// or
  https://". At \<open>{apiUrl: "httpfoo"}\<close> the update is accepted, stored and saved.
\<close>

theorem updateConfig_accepts_http_without_scheme:
  "\<not> startsWith ''httpfoo'' ''http://'' \<and> \<not> startsWith ''httpfoo'' ''https://''
   \<and> fst (updateConfig (empty_partial\<lparr>apiUrl_opt := Some ''httpfoo''\<rparr>) fresh_service) = Inr ()
   \<and> apiUrl (getConfig (snd (updateConfig (empty_partial\<lparr>apiUrl_opt := Some ''httpfoo''\<rparr>)
                                fresh_service))) = ''httpfoo''
   \<and> apiUrl (getConfig fresh_service) = ''''"
  by (simp add: updateConfig_def validateConfig_def empty_partial_def fresh_service_def
      startsWith_def saveConfig_def getConfig_def spread_def or_previous_def or_default_def)

text \<open>
  Claim C7. The claim: for every non-empty URL that starts with neither \<open>http://\<close> nor
  \<open>https://\<close>, \<open>setApiConfig\<close> and \<open>updateConfig\<close> fail and the stored configuration
  stays. \<open>setApiConfig\<close> has the same check \<open>startsWith('http')\<close> under the same message:
  \<open>setApiConfig("httpx://bad", "tok")\<close> succeeds and stores the URL.
\<close>

theorem setApiConfig_accepts_http_without_scheme:
  "\<not> startsWith ''httpx://bad'' ''http://'' \<and> \<not> startsWith ''httpx://bad'' ''https://''
   \<and> fst (setApiConfig ''httpx://bad'' ''tok'' fresh_service) = Inr ()
   \<and> apiUrl (getConfig (snd (setApiConfig ''httpx://bad'' ''tok'' fresh_service)))
       = ''httpx://bad''"
  by (simp add: setApiConfig_def updateConfig_def validateConfig_def empty_partial_def
      fresh_service_def startsWith_def saveConfig_def getConfig_def spread_def or_previous_def
      or_default_def trim_def isWhiteSpace_def)

subsection \<open>A failed save\<close>

text \<open>
  Claim C9. When the update passes validation and the file cannot be written,
  \<open>updateConfig\<close> throws "Failed to save configuration"; the object in memory is already
  the merged one, so \<open>getConfig\<close> returns every property the update carried, and the file
  is as it was.
\<close>

theorem updateConfig_save_failure_keeps_merge:
  assumes ok: "validateConfig newConfig = Inr ()" and ro: "\<not> writable (fs s)"
  shows "fst (updateConfig newConfig s) = Inl (Error ''Failed to save configuration'')
     \<and> config (snd (updateConfig newConfig s)) = spread (config s) newConfig
     \<and> config_file (fs (snd (updateConfig newConfig s))) = config_file (fs s)
     \<and> (\<forall>v. apiUrl_opt newConfig = Some v
            \<longrightarrow> apiUrl (getConfig (snd (updateConfig newConfig s))) = v)
     \<and> (\<forall>v. apiToken_opt newConfig = Some v
            \<longrightarrow> apiToken (getConfig (snd (updateConfig newConfig s))) = v)
     \<and> (\<forall>v. defaultModel_opt newConfig = Some v
            \<longrightarrow> defaultModel (getConfig (snd (updateConfig newConfig s))) = v)
     \<and> (\<forall>v. maxTokens_opt newConfig = Some v
            \<longrightarrow> maxTokens (getConfig (snd (updateConfig newConfig s))) = v)
     \<and> (\<forall>v. temperature_opt newConfig = Some v
            \<longrightarrow> LLMConfig.temperature (getConfig (snd (updateConfig newConfig s))) = v)
     \<and> (\<forall>v. requestTimeout_opt newConfig = Some v
            \<longrightarrow> requestTimeout (getConfig (snd (updateConfig newConfig s))) = v)
     \<and> (\<forall>v. enableLogging_opt newConfig = Some v
            \<longrightarrow> enableLogging (getConfig (snd (updateConfig newConfig s))) = v)"
proof -
  have upd: "updateConfig newConfig s =
      (Inl (Error ''Failed to save configuration''), s\<lparr>config := spread (config s) newConfig\<rparr>)"
    using ok ro by (simp add: updateConfig_def saveConfig_def)
  show ?thesis
    unfolding upd
    by (simp add: getConfig_def spread_def or_previous_def or_default_def)
qed

theorem updateConfig_save_failure_keeps_merge_witness:
  "validateConfig (empty_partial\<lparr>maxTokens_opt := Some 200\<rparr>) = Inr ()
   \<and> \<not> writable (fs readonly_service)
   \<and> maxTokens (getConfig readonly_service) = 150
   \<and> fst (updateConfig (empty_partial\<lparr>maxTokens_opt := Some 200\<rparr>) readonly_service)
       = Inl (Error ''Failed to save configuration'')
   \<and> maxTokens (getConfig (snd (updateConfig (empty_partial\<lparr>maxTokens_opt := Some 200\<rparr>)
                                   readonly_service))) = 200
   \<and> config_file (fs (snd (updateConfig (empty_partial\<lparr>maxTokens_opt := Some 200\<rparr>)
                              readonly_service))) = None"
proof -
  have ok: "validateConfig (empty_partial\<lparr>maxTokens_opt := Some 200\<rparr>) = Inr ()"
    by (simp add: validateConfig_def empty_partial_def)
  have ro: "\<not> writable (fs readonly_service)"
    by (simp add: readonly_service_def)
  have before: "maxTokens (getConfig readonly_service) = 150"
    by (simp add: getConfig_def readonly_service_def fresh_service_def empty_partial_def
        or_default_def)
  have none: "config_file (fs readonly_service) = None"
    by (simp add: readonly_service_def)
  from updateConfig_save_failure_keeps_merge [OF ok ro] ok ro before none
  show ?thesis by simp
qed

subsection \<open>The masked view\<close>

text \<open>
  Claim C6, as stated: the masked token never equals the stored one. It does for the empty
  token, which the source maps to the empty string, and for a token that is itself ten
  characters followed by three dots.
\<close>

theorem getMaskedConfig_token_counterexample:
  "apiToken (getMaskedConfig fresh_service) = apiToken (getConfig fresh_service)
   \<and> apiToken (getMaskedConfig
        (fresh_service\<lparr>config := empty_partial\<lparr>apiToken_opt := Some ''0123456789...''\<rparr>\<rparr>))
     = apiToken (getConfig
        (fresh_service\<lparr>config := empty_partial\<lparr>apiToken_opt := Some ''0123456789...''\<rparr>\<rparr>))"
  by (simp add: getMaskedConfig_def getConfig_def fresh_service_def empty_partial_def
      or_default_def substring_def str_or_def Let_def)

text \<open>
  Claim C6, amended. The masked token is empty for an empty token and otherwise the first
  ten characters of the token (all of it when it is shorter) followed by \<open>...\<close>: no
  character of the token beyond the tenth is shown. It differs from a non-empty token unless
  that token has the form of a mask itself (thirteen characters ending in \<open>...\<close>). An
  empty \<open>apiUrl\<close> is shown as \<open>[Not configured]\<close>.
\<close>

theorem getMaskedConfig_token_prefix:
  "apiToken (getMaskedConfig s) =
     (if apiToken (getConfig s) = [] then [] else take 10 (apiToken (getConfig s)) @ ''...'')
   \<and> (apiToken (getConfig s) \<noteq> []
        \<and> \<not> (length (apiToken (getConfig s)) = 13 \<and> drop 10 (apiToken (getConfig s)) = ''...'')
      \<longrightarrow> apiToken (getMaskedConfig s) \<noteq> apiToken (getConfig s))
   \<and> (apiUrl (getConfig s) = [] \<longrightarrow> apiUrl (getMaskedConfig s) = ''[Not configured]'')"
proof -
  let ?t = "apiToken (getConfig s)"
  have masked: "apiToken (getMaskedConfig s) = (if ?t = [] then [] else take 10 ?t @ ''...'')"
    by (simp add: getMaskedConfig_def Let_def substring_def)
  have differ: "apiToken (getMaskedConfig s) \<noteq> ?t"
    if ne: "?t \<noteq> []" and shape: "\<not> (length ?t = 13 \<and> drop 10 ?t = ''...'')"
  proof
    assume "apiToken (getMaskedConfig s) = ?t"
    with masked ne have eq: "take 10 ?t @ ''...'' = ?t" by simp
    have "length (take 10 ?t @ ''...'') = length ?t"
      by (rule arg_cong [where f = length]) (rule eq)
    then have len: "length ?t = 13" by simp
    have "drop 10 (take 10 ?t @ ''...'') = drop 10 ?t"
      by (rule arg_cong [where f = "drop 10"]) (rule eq)
    with len have "drop 10 ?t = ''...''" by simp
    with len shape show False by simp
  qed
  have url: "apiUrl (getMaskedConfig s) = ''[Not configured]''" if "apiUrl (getConfig s) = []"
    using that by (simp add: getMaskedConfig_def Let_def str_or_def)
  from masked differ url show ?thesis by blast
qed

theorem getMaskedConfig_token_prefix_witness:
  "apiToken (getConfig configured_service) = ''secret-token-12345''
   \<and> apiToken (getMaskedConfig configured_service) = ''secret-tok...''
   \<and> apiToken (getMaskedConfig configured_service) \<noteq> apiToken (getConfig configured_service)
   \<and> apiUrl (getConfig fresh_service) = []
   \<and> apiUrl (getMaskedConfig fresh_service) = ''[Not configured]''"
  using getMaskedConfig_token_prefix [of configured_service]
    getMaskedConfig_token_prefix [of fresh_service]
  by (simp add: getConfig_def configured_service_def fresh_service_def empty_partial_def
      or_default_def)


section \<open>The completion service\<close>

subsection \<open>Request validation\<close>

lemma validateRequest_valid_iff:
  "valid (validateRequest r) \<longleftrightarrow>
     \<not> prompt_missing (LLMRequest.prompt r) \<and> \<not> prompt_too_long (LLMRequest.prompt r)
     \<and> \<not> max_tokens_rejected (LLMRequest.max_tokens r)
     \<and> \<not> temperature_rejected (LLMRequest.temperature r)"
  by (simp add: validateRequest_def Let_def)

text \<open>A temperature outside [0, 2] is always reported.\<close>

lemma validateRequest_temperature_out_of_range:
  assumes "LLMRequest.temperature r = Some t" and "t < 0 \<or> t > 2"
  shows "\<not> valid (validateRequest r)
     \<and> ''temperature must be between 0 and 2'' \<in> set (errors (validateRequest r))"
  using assms by (auto simp: validateRequest_def Let_def temperature_rejected_def)

text \<open>A \<open>max_tokens\<close> outside [1, 4000] is reported when it is not 0.\<close>

lemma validateRequest_max_tokens_out_of_range:
  assumes "LLMRequest.max_tokens r = Some n" and "n < 1 \<or> n > 4000" and "n \<noteq> 0"
  shows "\<not> valid (validateRequest r)
     \<and> ''max_tokens must be between 1 and 4000'' \<in> set (errors (validateRequest r))"
  using assms by (auto simp: validateRequest_def Let_def max_tokens_rejected_def)

text \<open>A request within all bounds is valid, with no message.\<close>

lemma validateRequest_in_bounds:
  assumes "LLMRequest.prompt r = Some p" and "trim p \<noteq> []" and "length p \<le> 10000"
    and "\<And>n. LLMRequest.max_tokens r = Some n \<Longrightarrow> 1 \<le> n \<and> n \<le> 4000"
    and "\<And>t. LLMRequest.temperature r = Some t \<Longrightarrow> 0 \<le> t \<and> t \<le> 2"
  shows "validateRequest r = \<lparr>valid = True, errors = []\<rparr>"
proof -
  have "p \<noteq> []" using assms(2) by (auto simp: trim_def)
  with assms(1,2,3) have p: "\<not> prompt_missing (LLMRequest.prompt r)"
      "\<not> prompt_too_long (LLMRequest.prompt r)"
    by (simp_all add: prompt_missing_def prompt_too_long_def)
  have m: "\<not> max_tokens_rejected (LLMRequest.max_tokens r)"
    using assms(4) by (cases "LLMRequest.max_tokens r") (auto simp: max_tokens_rejected_def)
  have t: "\<not> temperature_rejected (LLMRequest.temperature r)"
    using assms(5) by (cases "LLMRequest.temperature r") (auto simp: temperature_rejected_def)
  from p m t show ?thesis by (simp add: validateRequest_def)
qed

text \<open>
  Claim C1. The claim: a present \<open>max_tokens\<close> outside [1, 4000] or a present
  \<open>temperature\<close> outside [0, 2] gives \<open>valid = false\<close> with the message of that rule,
  and values within the bounds give \<open>valid = true\<close>. The source guards the range check
  with the truthiness of \<open>request.max_tokens\<close>, so the value 0, which is below 1, skips
  the check: \<open>{prompt: "Hello", max_tokens: 0}\<close> is valid with no message.
  (\<open>validateConfig\<close>, with \<open>!== undefined\<close>, rejects \<open>maxTokens = 0\<close>.)
\<close>

theorem validateRequest_accepts_zero_max_tokens:
  "validateRequest
     \<lparr>LLMRequest.model = None, LLMRequest.prompt = Some ''Hello'',
      LLMRequest.max_tokens = Some 0, LLMRequest.temperature = None\<rparr>
   = \<lparr>valid = True, errors = []\<rparr>"
  by (simp add: validateRequest_def prompt_missing_def prompt_too_long_def
      max_tokens_rejected_def temperature_rejected_def trim_def isWhiteSpace_def)

subsection \<open>The outbound call\<close>

lemma build_payload_nonzero_temperature:
  "LLMRequest.temperature r = Some t \<Longrightarrow> t \<noteq> 0 \<Longrightarrow>
     Payload.temperature (build_payload cfg r) = t"
  by (simp add: build_payload_def opt_num_or_def num_or_def)

lemma build_payload_nonzero_max_tokens:
  "LLMRequest.max_tokens r = Some n \<Longrightarrow> n \<noteq> 0 \<Longrightarrow>
     Payload.max_tokens (build_payload cfg r) = n"
  by (simp add: build_payload_def opt_num_or_def num_or_def)

lemma build_payload_nonempty_model:
  "LLMRequest.model r = Some m \<Longrightarrow> m \<noteq> [] \<Longrightarrow> Payload.model (build_payload cfg r) = m"
  by (simp add: build_payload_def opt_str_or_def str_or_def)

text \<open>
  Claim C2. The claim: the payload takes \<open>temperature\<close> from the request whenever the
  request has one, and a temperature 0 is sent as 0. The source writes
  \<open>request.temperature || config.temperature || 0.7\<close>, and 0 is falsy: for the request
  \<open>{prompt: "hi", temperature: 0}\<close> on a service that stores no temperature, the one call
  made carries the default 0.3 of \<open>getConfig\<close>.
\<close>

theorem sendChatCompletion_drops_zero_temperature:
  "map (\<lambda>c. Payload.temperature (body c))
     (calls (snd (sendChatCompletion configured_service
        \<lparr>LLMRequest.model = None, LLMRequest.prompt = Some ''hi'',
         LLMRequest.max_tokens = None, LLMRequest.temperature = Some 0\<rparr>
        (network_of (NoResponse ''timeout of 30000ms exceeded'')))))
   = [3 / 10]"
  by (simp add: sendChatCompletion_def Let_def configured_service_def fresh_service_def
      empty_partial_def getConfig_def or_default_def try_post_def axios_post_def network_of_def
      build_call_def build_payload_def num_or_def opt_num_or_def)

text \<open>
  Claim C4. With an empty \<open>apiUrl\<close> or an empty \<open>apiToken\<close> in \<open>getConfig()\<close>,
  \<open>sendChatCompletion\<close> throws the error whose message names the missing setting (the URL
  when both are missing), and the network is as before: no call is logged.
\<close>

theorem sendChatCompletion_unconfigured:
  assumes "apiUrl (getConfig svc) = [] \<or> apiToken (getConfig svc) = []"
  shows "fst (sendChatCompletion svc request net) =
           Inl (Error (if apiUrl (getConfig svc) = [] then ''LLM API URL not configured''
                       else ''LLM API token not configured''))
     \<and> snd (sendChatCompletion svc request net) = net
     \<and> calls (snd (sendChatCompletion svc request net)) = calls net"
  using assms by (auto simp: sendChatCompletion_def Let_def)

theorem sendChatCompletion_unconfigured_witness:
  "apiUrl (getConfig fresh_service) = []
   \<and> sendChatCompletion fresh_service
        \<lparr>LLMRequest.model = None, LLMRequest.prompt = Some ''hi'',
         LLMRequest.max_tokens = None, LLMRequest.temperature = None\<rparr>
        (network_of (Responded (ok_response \<lparr>choices = None, error_message = None\<rparr>)))
     = (Inl (Error ''LLM API URL not configured''),
        network_of (Responded (ok_response \<lparr>choices = None, error_message = None\<rparr>)))
   \<and> calls (network_of (Responded (ok_response \<lparr>choices = None, error_message = None\<rparr>))) = []
   \<and> apiUrl (getConfig url_only_service) \<noteq> [] \<and> apiToken (getConfig url_only_service) = []
   \<and> sendChatCompletion url_only_service
        \<lparr>LLMRequest.model = None, LLMRequest.prompt = Some ''hi'',
         LLMRequest.max_tokens = None, LLMRequest.temperature = None\<rparr>
        (network_of (Responded (ok_response \<lparr>choices = None, error_message = None\<rparr>)))
     = (Inl (Error ''LLM API token not configured''),
        network_of (Responded (ok_response \<lparr>choices = None, error_message = None\<rparr>)))"
proof -
  have empty: "apiUrl (getConfig fresh_service) = []"
    by (simp add: getConfig_def fresh_service_def empty_partial_def or_default_def)
  then have no_url: "apiUrl (getConfig fresh_service) = [] \<or> apiToken (getConfig fresh_service) = []"
    by simp
  have url: "apiUrl (getConfig url_only_service) \<noteq> []"
    and token: "apiToken (getConfig url_only_service) = []"
    by (simp_all add: getConfig_def url_only_service_def fresh_service_def empty_partial_def
        or_default_def)
  from token have no_token:
    "apiUrl (getConfig url_only_service) = [] \<or> apiToken (getConfig url_only_service) = []"
    by simp
  from sendChatCompletion_unconfigured [OF no_url] sendChatCompletion_unconfigured [OF no_token]
    empty url token
  show ?thesis by (simp add: prod_eq_iff network_of_def)
qed

text \<open>What \<open>sendChatCompletion\<close> returns or throws for each outcome of the call.\<close>

lemma try_post_responded_ok:
  assumes "respond net (build_call cfg request) = Responded r" and "status r < 400"
  shows "try_post cfg request net =
           (Inr (data r), net\<lparr>calls := calls net @ [build_call cfg request]\<rparr>)"
  using assms by (simp add: try_post_def axios_post_def Let_def)

lemma sendChatCompletion_responded_ok:
  assumes "apiUrl (getConfig svc) \<noteq> []" and "apiToken (getConfig svc) \<noteq> []"
    and "respond net (build_call (getConfig svc) request) = Responded r" and "status r < 400"
  shows "sendChatCompletion svc request net =
           (Inr (data r), net\<lparr>calls := calls net @ [build_call (getConfig svc) request]\<rparr>)"
  using assms by (simp add: sendChatCompletion_def Let_def try_post_responded_ok)

lemma sendChatCompletion_client_error:
  assumes "apiUrl (getConfig svc) \<noteq> []" and "apiToken (getConfig svc) \<noteq> []"
    and "respond net (build_call (getConfig svc) request) = Responded r"
    and "400 \<le> status r" and "status r < 500"
  shows "fst (sendChatCompletion svc request net) =
           Inl (Error (''Request failed: LLM API returned error: '' @ string_of_nat (status r)
                       @ '' - '' @ statusText r))"
  using assms
  by (simp add: sendChatCompletion_def Let_def try_post_def axios_post_def catch_rethrow_def)

lemma sendChatCompletion_server_error:
  assumes "apiUrl (getConfig svc) \<noteq> []" and "apiToken (getConfig svc) \<noteq> []"
    and "respond net (build_call (getConfig svc) request) = Responded r"
    and "500 \<le> status r"
  shows "fst (sendChatCompletion svc request net) =
           Inl (Error (''LLM API Error ('' @ string_of_nat (status r) @ ''): ''
                       @ opt_str_or (error_message (data r)) (statusText r)))"
  using assms
  by (simp add: sendChatCompletion_def Let_def try_post_def axios_post_def catch_rethrow_def)

lemma sendChatCompletion_no_response:
  assumes "apiUrl (getConfig svc) \<noteq> []" and "apiToken (getConfig svc) \<noteq> []"
    and "respond net (build_call (getConfig svc) request) = NoResponse m"
  shows "fst (sendChatCompletion svc request net) =
           Inl (Error ''LLM API is not responding. Please check the API URL and network connection.'')"
  using assms
  by (simp add: sendChatCompletion_def Let_def try_post_def axios_post_def catch_rethrow_def)

text \<open>
  Claim C5. The claim: a response 404 with the body \<open>{error: {message: "model not found"}}\<close>
  makes \<open>sendChatCompletion\<close> fail with a message that holds 404 and "model not found".
  With \<open>validateStatus: status < 500\<close> the promise resolves for a 404; the source then
  throws a plain \<open>Error\<close> inside its own \<open>try\<close>, and the \<open>catch\<close> clause, finding no
  \<open>response\<close> on it, rethrows it as "Request failed: ...". The branch that reads
  \<open>error.response.data?.error?.message\<close> is reached for a status of 500 and above only, so
  the message of the body is lost.
\<close>

theorem sendChatCompletion_404_loses_upstream_message:
  "fst (sendChatCompletion configured_service
          \<lparr>LLMRequest.model = None, LLMRequest.prompt = Some ''hi'',
           LLMRequest.max_tokens = None, LLMRequest.temperature = None\<rparr>
          (network_of (Responded model_not_found)))
     = Inl (Error ''Request failed: LLM API returned error: 404 - Not Found'')
   \<and> \<not> str_includes ''Request failed: LLM API returned error: 404 - Not Found''
         ''model not found''"
  by (simp add: sendChatCompletion_def Let_def configured_service_def fresh_service_def
      empty_partial_def getConfig_def or_default_def try_post_def axios_post_def network_of_def
      model_not_found_def catch_rethrow_def string_of_nat.simps startsWith_def)

subsection \<open>Plain completions and the connection test\<close>

lemma catch_rethrow_not_no_response: "catch_rethrow e \<noteq> Error ''No response from LLM''"
  by (simp add: catch_rethrow_def split: option.split)

lemma sendChatCompletion_not_no_response:
  "fst (sendChatCompletion svc request net) \<noteq> Inl (Error ''No response from LLM'')"
  by (auto simp: sendChatCompletion_def Let_def catch_rethrow_not_no_response
      split: prod.split sum.split)

text \<open>
  Claim C10. When the upstream answers with a status below 400 and a non-empty \<open>choices\<close>
  whose first element has neither \<open>text\<close> nor \<open>message.content\<close>, \<open>sendCompletion\<close>
  returns the empty string. It throws "No response from LLM" exactly when
  \<open>sendChatCompletion\<close> returned a body whose \<open>choices\<close> is absent or empty.
\<close>

theorem sendCompletion_choices:
  "(apiUrl (getConfig svc) \<noteq> [] \<and> apiToken (getConfig svc) \<noteq> []
      \<and> respond net (build_call (getConfig svc) (completion_request p maxTok)) = Responded r
      \<and> status r < 400
      \<and> choices (data r) = Some (c # cs) \<and> choice_text c = None \<and> message_content c = None
    \<longrightarrow> fst (sendCompletion svc p maxTok net) = Inr '''')
   \<and> (fst (sendCompletion svc p maxTok net) = Inl (Error ''No response from LLM'')
        \<longleftrightarrow> (\<exists>d. fst (sendChatCompletion svc (completion_request p maxTok) net) = Inr d
                  \<and> (choices d = None \<or> choices d = Some [])))"
proof (intro conjI impI)
  assume a: "apiUrl (getConfig svc) \<noteq> [] \<and> apiToken (getConfig svc) \<noteq> []
      \<and> respond net (build_call (getConfig svc) (completion_request p maxTok)) = Responded r
      \<and> status r < 400
      \<and> choices (data r) = Some (c # cs) \<and> choice_text c = None \<and> message_content c = None"
  then have "sendChatCompletion svc (completion_request p maxTok) net =
      (Inr (data r),
       net\<lparr>calls := calls net @ [build_call (getConfig svc) (completion_request p maxTok)]\<rparr>)"
    by (simp add: sendChatCompletion_responded_ok)
  with a show "fst (sendCompletion svc p maxTok net) = Inr ''''"
    by (simp add: sendCompletion_def choice_content_def opt_or_def opt_str_or_def)
next
  show "fst (sendCompletion svc p maxTok net) = Inl (Error ''No response from LLM'')
        \<longleftrightarrow> (\<exists>d. fst (sendChatCompletion svc (completion_request p maxTok) net) = Inr d
                  \<and> (choices d = None \<or> choices d = Some []))"
  proof (cases "sendChatCompletion svc (completion_request p maxTok) net")
    case (Pair res net')
    show ?thesis
    proof (cases res)
      case (Inl e)
      with Pair have "e \<noteq> Error ''No response from LLM''"
        using sendChatCompletion_not_no_response [of svc "completion_request p maxTok" net]
        by auto
      with Pair Inl show ?thesis by (simp add: sendCompletion_def)
    next
      case (Inr d)
      with Pair show ?thesis
        by (simp add: sendCompletion_def split: option.split list.split)
    qed
  qed
qed

theorem sendCompletion_choices_witness:
  "fst (sendCompletion configured_service ''hi'' None
          (network_of (Responded (ok_response
             \<lparr>choices = Some [\<lparr>choice_text = None, message_content = None\<rparr>],
              error_message = None\<rparr>)))) = Inr ''''
   \<and> fst (sendCompletion configured_service ''hi'' None
          (network_of (Responded (ok_response \<lparr>choices = Some [], error_message = None\<rparr>))))
       = Inl (Error ''No response from LLM'')"
proof -
  let ?blank = "ok_response \<lparr>choices = Some [\<lparr>choice_text = None, message_content = None\<rparr>],
              error_message = None\<rparr>"
  let ?none = "ok_response \<lparr>choices = Some [], error_message = None\<rparr>"
  have cfgd: "apiUrl (getConfig configured_service) \<noteq> []
      \<and> apiToken (getConfig configured_service) \<noteq> []"
    by (simp add: getConfig_def configured_service_def fresh_service_def empty_partial_def
        or_default_def)
  have first: "fst (sendCompletion configured_service ''hi'' None (network_of (Responded ?blank)))
      = Inr ''''"
    using sendCompletion_choices [of configured_service "network_of (Responded ?blank)" "''hi''"
        None ?blank "\<lparr>choice_text = None, message_content = None\<rparr>" "[]"] cfgd
    by (simp add: network_of_def ok_response_def)
  have "sendChatCompletion configured_service (completion_request ''hi'' None)
          (network_of (Responded ?none))
      = (Inr (data ?none),
         (network_of (Responded ?none))\<lparr>calls := calls (network_of (Responded ?none))
            @ [build_call (getConfig configured_service) (completion_request ''hi'' None)]\<rparr>)"
    using cfgd
    by (intro sendChatCompletion_responded_ok) (simp_all add: network_of_def ok_response_def)
  then have second:
    "fst (sendCompletion configured_service ''hi'' None (network_of (Responded ?none)))
       = Inl (Error ''No response from LLM'')"
    using sendCompletion_choices [of configured_service "network_of (Responded ?none)" "''hi''"
        None]
    by (simp add: ok_response_def)
  from first second show ?thesis by simp
qed

text \<open>
  Claim C8. \<open>testConnection\<close> returns a result object for every outcome of
  \<open>sendCompletion\<close> and never throws. When \<open>sendCompletion\<close> threw, the result has
  \<open>success = false\<close> and the message "Connection failed: " followed by the message of the
  error, which contains "failed". When it returned a text, the result has \<open>success = true\<close>,
  a message with the first 100 characters of the text, and the elapsed time.
\<close>

theorem testConnection_never_throws:
  "\<exists>r. fst (testConnection svc t0 t1 net) = Inr r \<and>
     (case fst (sendCompletion svc testPrompt (Some 20) net) of
        Inl e \<Rightarrow>
          success r = False \<and> message r = ''Connection failed: '' @ message_of e
          \<and> str_includes (message r) ''failed''
      | Inr reply \<Rightarrow>
          success r = True
          \<and> message r = ''Connection successful! Response: '' @ take 100 reply @ ''...''
          \<and> responseTime r = Some (t1 - t0))"
proof (cases "sendCompletion svc testPrompt (Some 20) net")
  case (Pair res net')
  show ?thesis
  proof (cases res)
    case (Inl e)
    have "str_includes (''Connection '' @ ''failed'' @ '': '' @ message_of e) ''failed''"
      by (rule str_includes_append)
    with Pair Inl show ?thesis by (simp add: testConnection_def)
  next
    case (Inr reply)
    with Pair show ?thesis by (simp add: testConnection_def substring_def)
  qed
qed

text \<open>The scenario of the claim: the call times out, and the test reports the failure.\<close>

theorem testConnection_never_throws_witness:
  "fst (testConnection configured_service 1000 31000
          (network_of (NoResponse ''timeout of 30000ms exceeded'')))
   = Inr \<lparr>success = False,
          message = ''Connection failed: LLM API is not responding. Please check the API URL and network connection.'',
          responseTime = None\<rparr>"
  using testConnection_never_throws [of configured_service 1000 31000
      "network_of (NoResponse ''timeout of 30000ms exceeded'')"]
  by (simp add: testConnection_def sendCompletion_def sendChatCompletion_def Let_def
      configured_service_def fresh_service_def empty_partial_def getConfig_def or_default_def
      try_post_def axios_post_def network_of_def catch_rethrow_def)

end
